theory Spec2Isabelle
  imports Complex_Main "HOL-Library.Word"
begin

section \<open>The dispatch arithmetic of \<open>interpolate\<close> (module.cpp)\<close>

text \<open>
  \<open>size_t\<close> is an unsigned 64-bit integer: addition, subtraction and multiplication
  wrap around, division truncates.
\<close>

type_synonym size_t = "64 word"

text \<open>
  Lines 63--72: the size-tiered table of the desired number of threads.
\<close>

definition desired_threads :: "size_t \<Rightarrow> size_t" where
  "desired_threads num_elements =
     (if num_elements < 10000 then 1
      else if num_elements < 4000000 then 2
      else if num_elements < 160000000 then 4
      else 8)"

text \<open>
  Lines 73--76: \<open>std::min(desired_threads, max_threads)\<close>, replaced by 1 when it is 0.
\<close>

definition num_threads :: "size_t \<Rightarrow> size_t \<Rightarrow> size_t" where
  "num_threads num_elements max_threads =
     (let n = min (desired_threads num_elements) max_threads
      in if n = 0 then 1 else n)"

text \<open>
  Line 250: \<open>py::arg("max_threads") = 8\<close>; an omitted argument is \<open>None\<close>.
\<close>

definition max_threads_arg :: "size_t option \<Rightarrow> size_t" where
  "max_threads_arg a = (case a of None \<Rightarrow> 8 | Some m \<Rightarrow> m)"

text \<open>
  Line 77: \<open>stride = num_elements / num_threads\<close>, written over the worker count
  \<open>w\<close> that line 73--76 computed.
\<close>

definition stride :: "size_t \<Rightarrow> size_t \<Rightarrow> size_t" where
  "stride num_elements w = num_elements div w"

text \<open>
  Lines 101, 140, 185: \<open>index = i * stride\<close>, the first query point of task \<open>i\<close>.
\<close>

definition chunk_index :: "size_t \<Rightarrow> size_t \<Rightarrow> size_t \<Rightarrow> size_t" where
  "chunk_index num_elements w i = i * stride num_elements w"

text \<open>
  Lines 110, 151, 198: the number of points handed to task \<open>i\<close>,
  \<open>index + stride < num_elements ? stride : num_elements - index\<close>.
\<close>

definition chunk_count :: "size_t \<Rightarrow> size_t \<Rightarrow> size_t \<Rightarrow> size_t" where
  "chunk_count num_elements w i =
     (let index = chunk_index num_elements w i;
          s = stride num_elements w
      in if index + s < num_elements then s else num_elements - index)"

text \<open>
  The counter of \<open>for (size_t i = 0; i < num_threads; i++)\<close> takes the values
  \<open>0, 1, ..., num_threads - 1\<close> in this order.
\<close>

definition task_ids :: "size_t \<Rightarrow> size_t list" where
  "task_ids w = map of_nat [0..<unat w]"

text \<open>
  The chunks of the dispatch loop, one pair (first point, number of points) per task.
\<close>

definition chunks :: "size_t \<Rightarrow> size_t \<Rightarrow> (size_t \<times> size_t) list" where
  "chunks num_elements w =
     map (\<lambda>i. (chunk_index num_elements w i, chunk_count num_elements w i)) (task_ids w)"

text \<open>
  The part of the output buffer that task \<open>i\<close> is given: \<open>&out[index]\<close> and the
  count of points, as a set of positions of \<open>out\<close>.
\<close>

definition out_region :: "size_t \<Rightarrow> size_t \<Rightarrow> size_t \<Rightarrow> nat set" where
  "out_region num_elements w i =
     {unat (chunk_index num_elements w i) ..<
      unat (chunk_index num_elements w i) + unat (chunk_count num_elements w i)}"

section \<open>Arrays, slices and the kernels\<close>

text \<open>
  A \<open>py::array_t<double, py::array::c_style>\<close> argument: its shape and its elements
  in row-major order. The element type stays a type variable; the arithmetic of
  \<open>double\<close> plays no part in the dispatch. \<open>ndim\<close> is the number of dimensions,
  \<open>array_size\<close> the total number of entries (\<open>size()\<close> of the array and the field
  \<open>size\<close> of its \<open>buffer_info\<close>).
\<close>

record 'a ndarray =
  shape :: "nat list"
  data :: "'a list"

definition ndim :: "('a, 'b) ndarray_scheme \<Rightarrow> nat" where
  "ndim a = length (shape a)"

definition array_size :: "('a, 'b) ndarray_scheme \<Rightarrow> nat" where
  "array_size a = prod_list (shape a)"

text \<open>
  Modelled from the spec: \<open>interpolate.h\<close>, which declares \<open>slice<T>\<close> and the
  kernels \<open>interpolate_1d\<close>, \<open>interpolate_2d\<close>, \<open>interpolate_3d\<close> and
  \<open>interpolate\<close>, is not among the sources. A slice is built in module.cpp from a
  length and a pointer (lines 210--223); the pointer is modelled by the elements that
  start at its address.
\<close>

record 'a slice =
  slice_size :: size_t
  slice_ptr :: "'a list"

text \<open>
  Modelled from the spec: a kernel writes one interpolated value per query point into its
  output slice (section 4.2). The computation of one value from the coordinates of one
  query point is a parameter \<open>f\<close>, which returns the value or the exception it throws.
  \<open>kernel_loop f d q c k out\<close> handles \<open>c\<close> points of \<open>d\<close> coordinates each,
  read from the pointer \<open>q\<close>, and writes their values to \<open>out[k], out[k+1], ...\<close>;
  the first exception ends the kernel and is returned with the buffer as it then is.
  An entry of the buffer is \<open>None\<close> as long as nothing has been written to it
  (\<open>new double[n]\<close> does not initialise the buffer).
\<close>

fun kernel_loop ::
  "('a list \<Rightarrow> 'e + 'a) \<Rightarrow> nat \<Rightarrow> 'a list \<Rightarrow> nat \<Rightarrow> nat \<Rightarrow> 'a option list
     \<Rightarrow> 'e option \<times> 'a option list" where
  "kernel_loop f d q 0 k out = (None, out)"
| "kernel_loop f d q (Suc c) k out =
     (case f (take d q) of
        Inl e \<Rightarrow> (Some e, out)
      | Inr v \<Rightarrow> kernel_loop f d (drop d q) c (Suc k) (out[k := Some v]))"

text \<open>
  The two kinds of kernel as parameters of the model: \<open>interpolate_1d/2d/3d\<close> take each
  axis as a pointer and a length and the sample tensor as a pointer; the generic
  \<open>interpolate\<close> takes the grid, the sample tensor and the query batch as slices.
\<close>

type_synonym ('a, 'e) fixed_kernel = "'a slice list \<Rightarrow> 'a list \<Rightarrow> 'a list \<Rightarrow> 'e + 'a"

type_synonym ('a, 'e) generic_kernel =
  "'a slice list \<Rightarrow> 'a slice \<Rightarrow> 'a slice \<Rightarrow> 'a list \<Rightarrow> 'e + 'a"

section \<open>Errors and effects\<close>

text \<open>
  What the call raises: a \<open>py::type_error\<close> with its message, or the exception of a
  kernel that ran in the calling thread.
\<close>

datatype 'e py_error = TypeError string | Raised 'e

text \<open>
  The effects of one call in the order in which they happen: \<open>new double[n]\<close>, a call
  of a 1-D, 2-D or 3-D kernel (in the calling thread or through \<open>std::async\<close>; with
  the number of axes, the axis lengths, the offsets of the query and output pointers and
  the count of points) and a call of the generic kernel (with the grid, the sample
  tensor slice, the query slice and the length of the output slice).
\<close>

datatype launch = Direct | Async

datatype 'a event =
    Alloc nat
  | Kernel launch nat "size_t list" nat nat size_t
  | Generic "'a slice list" "'a slice" "'a slice" size_t

fun event_launch :: "'a event \<Rightarrow> launch option" where
  "event_launch (Alloc n) = None"
| "event_launch (Kernel l d lens qo oo c) = Some l"
| "event_launch (Generic g v q n) = Some Direct"

fun event_count :: "'a event \<Rightarrow> size_t option" where
  "event_count (Alloc n) = None"
| "event_count (Kernel l d lens qo oo c) = Some c"
| "event_count (Generic g v q n) = Some n"

section \<open>Validation (lines 24--53)\<close>

text \<open>
  The stream \<open>ss << num_dims\<close> writes a number in decimal digits.
\<close>

fun show_digit :: "nat \<Rightarrow> char" where
  "show_digit n = ''0123456789'' ! n"

fun show_nat :: "nat \<Rightarrow> string" where
  "show_nat n = (if n < 10 then [show_digit n] else show_nat (n div 10) @ [show_digit (n mod 10)])"

declare show_nat.simps [simp del]

definition scalar_msg :: string where
  "scalar_msg = ''Only arrays are supported, not scalar values!''"

definition points_msg :: string where
  "points_msg = CHR 0x27 # ''points'' @ CHR 0x27 # '' must be a list of 1D arrays!''"

definition values_mismatch_msg :: "nat \<Rightarrow> nat \<Rightarrow> string" where
  "values_mismatch_msg num_dims values_ndim =
     ''Dimension mismatch! Grid is '' @ show_nat num_dims @
     ''D but values are '' @ show_nat values_ndim @ ''D!''"

definition interp_shape_msg :: string where
  "interp_shape_msg =
     CHR 0x27 # ''interp_points'' @ CHR 0x27 # '' should have shape (N, ndim).''"

definition interp_mismatch_msg :: "nat \<Rightarrow> nat \<Rightarrow> string" where
  "interp_mismatch_msg num_dims interp_dims =
     ''Dimension mismatch! Grid is '' @ show_nat num_dims @
     ''D but interpolation points are '' @ show_nat interp_dims @ ''D!''"

text \<open>
  Lines 30--34: the loop over \<open>points\<close> throws at the first array that is not
  one-dimensional.
\<close>

fun check_points :: "'a ndarray list \<Rightarrow> string option" where
  "check_points [] = None"
| "check_points (arr # rest) = (if ndim arr \<noteq> 1 then Some points_msg else check_points rest)"

text \<open>
  Lines 24--53: the checks in the order of the source; the result is the message of the
  \<open>py::type_error\<close> thrown, or \<open>None\<close> when all checks pass. The numbers of
  dimensions and the shape entries are nonnegative and far below \<open>2^63\<close>, so the
  comparisons between \<open>size_t\<close> and \<open>ssize_t\<close> are comparisons of natural numbers.
\<close>

definition validate :: "'a ndarray list \<Rightarrow> 'a ndarray \<Rightarrow> 'a ndarray \<Rightarrow> string option" where
  "validate points values interp_points =
     (let num_dims = length points in
      if ndim values = 0 \<or> ndim interp_points = 0 then Some scalar_msg
      else case check_points points of
        Some msg \<Rightarrow> Some msg
      | None \<Rightarrow>
          if num_dims \<noteq> ndim values then Some (values_mismatch_msg num_dims (ndim values))
          else if ndim interp_points \<noteq> 2 then Some interp_shape_msg
          else let interp_dims = shape interp_points ! 1 in
            if num_dims \<noteq> interp_dims then Some (interp_mismatch_msg num_dims interp_dims)
            else None)"

section \<open>Running the kernels (lines 82--231)\<close>

text \<open>
  A kernel called in the calling thread (lines 89--96, 126--135, 169--180): it handles
  all \<open>num_elements\<close> points from the start of the query batch and of \<open>out\<close>.
  An exception it throws leaves the call.
\<close>

definition run_direct ::
  "('a list \<Rightarrow> 'e + 'a) \<Rightarrow> nat \<Rightarrow> 'a list \<Rightarrow> 'a option list \<Rightarrow> size_t
     \<Rightarrow> 'e py_error + 'a option list" where
  "run_direct f d qs out num_elements =
     (case kernel_loop f d qs (unat num_elements) 0 out of
        (None, out') \<Rightarrow> Inr out'
      | (Some e, out') \<Rightarrow> Inl (Raised e))"

text \<open>
  One pass of the dispatch loop (lines 100--113, 139--154, 184--201): task \<open>i\<close> is
  given the query pointer \<open>&interp_points_ptr[qoff index]\<close>, the output pointer
  \<open>&out[index]\<close> and its count of points. The \<open>std::future\<close> pushed to
  \<open>tasks\<close> holds what the task ends with: nothing, or the exception it threw. The
  tasks write to \<open>out\<close> only, each through its own pointer and count, and are run
  here one after the other in the order of their launch (\<open>std::async\<close> with its
  default policy is taken to start each task on a thread of its own).
\<close>

definition run_task ::
  "('a list \<Rightarrow> 'e + 'a) \<Rightarrow> nat \<Rightarrow> (size_t \<Rightarrow> size_t) \<Rightarrow> 'a list \<Rightarrow> size_t \<Rightarrow> size_t \<Rightarrow> size_t
     \<Rightarrow> 'e option list \<times> 'a option list \<Rightarrow> 'e option list \<times> 'a option list" where
  "run_task f d qoff qs num_elements w i st =
     (let index = chunk_index num_elements w i;
          r = kernel_loop f d (drop (unat (qoff index)) qs)
                (unat (chunk_count num_elements w i)) (unat index) (snd st)
      in (fst st @ [fst r], snd r))"

text \<open>
  Lines 114--116, 155--157, 202--204: \<open>for (auto &future : tasks) { std::move(future); }\<close>.
  \<open>std::move\<close> is a cast whose result is dropped: no future is asked for its result,
  so the loop leaves the exception state of the call as it is. The futures are destroyed
  at the end of the block, which waits for the tasks and drops what they hold.
\<close>

definition join_tasks :: "'e option list \<Rightarrow> 'e option" where
  "join_tasks tasks = fold (\<lambda>future raised. raised) tasks None"

definition run_async ::
  "('a list \<Rightarrow> 'e + 'a) \<Rightarrow> nat \<Rightarrow> (size_t \<Rightarrow> size_t) \<Rightarrow> 'a list \<Rightarrow> 'a option list \<Rightarrow> size_t
     \<Rightarrow> size_t \<Rightarrow> 'e py_error + 'a option list" where
  "run_async f d qoff qs out num_elements w =
     (let st = fold (run_task f d qoff qs num_elements w) (task_ids w) ([], out)
      in case join_tasks (fst st) of
           None \<Rightarrow> Inr (snd st)
         | Some e \<Rightarrow> Inl (Raised e))"

definition async_events ::
  "nat \<Rightarrow> size_t list \<Rightarrow> (size_t \<Rightarrow> size_t) \<Rightarrow> size_t \<Rightarrow> size_t \<Rightarrow> 'a event list" where
  "async_events d lens qoff num_elements w =
     map (\<lambda>i. Kernel Async d lens (unat (qoff (chunk_index num_elements w i)))
               (unat (chunk_index num_elements w i)) (chunk_count num_elements w i))
         (task_ids w)"

text \<open>
  The branch of a 1-D, 2-D or 3-D grid: in the calling thread when there is one thread,
  through the dispatch loop otherwise. The axes are passed as pointer and length.
\<close>

definition fixed_branch ::
  "('a, 'e) fixed_kernel \<Rightarrow> nat \<Rightarrow> 'a slice list \<Rightarrow> 'a slice list \<Rightarrow> (size_t \<Rightarrow> size_t)
     \<Rightarrow> 'a list \<Rightarrow> 'a list \<Rightarrow> 'a option list \<Rightarrow> size_t \<Rightarrow> size_t
     \<Rightarrow> ('e py_error + 'a option list) \<times> 'a event list" where
  "fixed_branch kern d axes_direct axes_async qoff vals qs out num_elements w =
     (if w = 1 then
        (run_direct (kern axes_direct vals) d qs out num_elements,
         [Kernel Direct d (map slice_size axes_direct) 0 0 num_elements])
      else
        (run_async (kern axes_async vals) d qoff qs out num_elements w,
         async_events d (map slice_size axes_async) qoff num_elements w))"

text \<open>
  \<open>points[k].size()\<close> with the pointer of the array, and \<open>info.shape[0]\<close> with it.
\<close>

definition size_slice :: "'a ndarray \<Rightarrow> 'a slice" where
  "size_slice arr = \<lparr>slice_size = of_nat (array_size arr), slice_ptr = data arr\<rparr>"

definition shape_slice :: "'a ndarray \<Rightarrow> 'a slice" where
  "shape_slice arr = \<lparr>slice_size = of_nat (shape arr ! 0), slice_ptr = data arr\<rparr>"

definition sizeof_double :: size_t where
  "sizeof_double = 8"

text \<open>
  Lines 207--230: the slices handed to the generic kernel. Both the sample tensor slice
  and the query slice get the length \<open>values_info.size / sizeof(double)\<close>.
\<close>

definition generic_branch ::
  "('a, 'e) generic_kernel \<Rightarrow> 'a ndarray list \<Rightarrow> 'a ndarray \<Rightarrow> 'a ndarray \<Rightarrow> 'a option list
     \<Rightarrow> size_t \<Rightarrow> ('e py_error + 'a option list) \<times> 'a event list" where
  "generic_branch gkern points values interp_points out num_elements =
     (let grid = map shape_slice points;
          values_slice =
            \<lparr>slice_size = of_nat (array_size values) div sizeof_double,
             slice_ptr = data values\<rparr>;
          interpolation_points_slice =
            \<lparr>slice_size = of_nat (array_size values) div sizeof_double,
             slice_ptr = data interp_points\<rparr>
      in (run_direct (gkern grid values_slice interpolation_points_slice) (length points)
            (data interp_points) out num_elements,
          [Generic grid values_slice interpolation_points_slice num_elements]))"

section \<open>The call (lines 18--245)\<close>

text \<open>
  The lambda bound to \<open>interpolate\<close>: the outcome (the exception raised or the array
  returned) and the effects of the call. The array returned has the shape
  \<open>{num_elements}\<close> and the buffer \<open>out\<close> as its data.
\<close>

definition interpolate ::
  "('a, 'e) fixed_kernel \<Rightarrow> ('a, 'e) generic_kernel \<Rightarrow> 'a ndarray list \<Rightarrow> 'a ndarray
     \<Rightarrow> 'a ndarray \<Rightarrow> size_t \<Rightarrow> ('e py_error + 'a option ndarray) \<times> 'a event list" where
  "interpolate kern gkern points values interp_points max_threads =
     (case validate points values interp_points of
        Some msg \<Rightarrow> (Inl (TypeError msg), [])
      | None \<Rightarrow>
         (let num_dims = length points;
              num_elements = (of_nat (shape interp_points ! 0) :: size_t);
              out = replicate (unat num_elements) None;
              w = num_threads num_elements max_threads;
              vals = data values;
              qs = data interp_points;
              r =
                (if num_dims = 1 then
                   fixed_branch kern 1 [size_slice (points ! 0)] [shape_slice (points ! 0)]
                     (\<lambda>index. index) vals qs out num_elements w
                 else if num_dims = 2 then
                   fixed_branch kern 2 [size_slice (points ! 0), size_slice (points ! 1)]
                     [size_slice (points ! 0), size_slice (points ! 1)]
                     (\<lambda>index. index * of_nat num_dims) vals qs out num_elements w
                 else if num_dims = 3 then
                   fixed_branch kern 3
                     [size_slice (points ! 0), size_slice (points ! 1), size_slice (points ! 2)]
                     [size_slice (points ! 0), size_slice (points ! 1), size_slice (points ! 2)]
                     (\<lambda>index. index * of_nat num_dims) vals qs out num_elements w
                 else generic_branch gkern points values interp_points out num_elements)
          in (case fst r of
                Inl e \<Rightarrow> Inl e
              | Inr out' \<Rightarrow> Inr \<lparr>shape = [unat num_elements], data = out'\<rparr>,
              Alloc (unat num_elements) # snd r)))"

text \<open>
  The binding (line 250): \<open>max_threads\<close> is 8 when the caller leaves it out.
\<close>

definition py_interpolate ::
  "('a, 'e) fixed_kernel \<Rightarrow> ('a, 'e) generic_kernel \<Rightarrow> 'a ndarray list \<Rightarrow> 'a ndarray
     \<Rightarrow> 'a ndarray \<Rightarrow> size_t option \<Rightarrow> ('e py_error + 'a option ndarray) \<times> 'a event list" where
  "py_interpolate kern gkern points values interp_points max_threads =
     interpolate kern gkern points values interp_points (max_threads_arg max_threads)"

section \<open>The worker count in the words of the specification\<close>

text \<open>
  The table of the specification over the natural numbers: the desired number of workers
  and the effective number, the minimum with the budget, floored to 1.
\<close>

definition spec_desired :: "nat \<Rightarrow> nat" where
  "spec_desired n =
     (if n < 10000 then 1 else if n < 4000000 then 2 else if n < 160000000 then 4 else 8)"

definition spec_effective_workers :: "nat \<Rightarrow> nat \<Rightarrow> nat" where
  "spec_effective_workers n budget =
     (if min (spec_desired n) budget = 0 then 1 else min (spec_desired n) budget)"

text \<open>
  The preconditions of the specification (section 6) on the input of a call: every axis is
  one-dimensional, the rank of the sample tensor is the number of axes, the query batch is
  two-dimensional with one column per axis, and no array is a scalar.
\<close>

definition well_shaped :: "'a ndarray list \<Rightarrow> 'a ndarray \<Rightarrow> 'a ndarray \<Rightarrow> bool" where
  "well_shaped points values interp_points \<longleftrightarrow>
     list_all (\<lambda>axis. ndim axis = 1) points \<and>
     ndim values = length points \<and>
     ndim interp_points = 2 \<and>
     shape interp_points ! 1 = length points \<and>
     ndim values \<noteq> 0"

section \<open>Sample kernels and inputs\<close>

text \<open>
  The kernels are parameters of the model. For the grid with the axis \<open>[0, 1]\<close> and the
  samples \<open>[0, 1]\<close> linear interpolation returns the query coordinate itself, which
  \<open>echo_kernel\<close> does; \<open>throwing_kernel\<close> throws at every point.
\<close>

definition echo_kernel :: "(real, string) fixed_kernel" where
  "echo_kernel axes vals p = Inr (hd p)"

definition echo_generic :: "(real, string) generic_kernel" where
  "echo_generic grid vals qs p = Inr (hd p)"

definition throwing_kernel :: "(real, string) fixed_kernel" where
  "throwing_kernel axes vals p = Inl ''out_of_range''"

definition unit_axis :: "real ndarray" where
  "unit_axis = \<lparr>shape = [2], data = [0, 1]\<rparr>"

definition unit_values :: "real ndarray" where
  "unit_values = \<lparr>shape = [2], data = [0, 1]\<rparr>"

definition queries :: "nat \<Rightarrow> real ndarray" where
  "queries n = \<lparr>shape = [n, 1], data = replicate n (1 / 2)\<rparr>"

text \<open>
  A sample tensor of two dimensions, for the 1-D grid a mismatch.
\<close>

definition column_values :: "real ndarray" where
  "column_values = \<lparr>shape = [2, 1], data = [0, 1]\<rparr>"

text \<open>
  A 4-D grid of two coordinates per axis, its 16 samples and one query point.
\<close>

definition grid4 :: "real ndarray list" where
  "grid4 = [unit_axis, unit_axis, unit_axis, unit_axis]"

definition values4 :: "real ndarray" where
  "values4 = \<lparr>shape = [2, 2, 2, 2], data = replicate 16 0\<rparr>"

definition query4 :: "real ndarray" where
  "query4 = \<lparr>shape = [1, 4], data = [1 / 2, 1 / 2, 1 / 2, 1 / 2]\<rparr>"

section \<open>Arithmetic of the chunks\<close>

lemma unat_stride: "unat (stride n w) = unat n div unat w"
  by (simp add: stride_def unat_div)

lemma nat_chunk_bound:
  fixes i w n :: nat
  assumes "i < w"
  shows "i * (n div w) + n div w \<le> n"
proof -
  have "i * (n div w) + n div w = Suc i * (n div w)" by simp
  also have "\<dots> \<le> w * (n div w)" using assms by (intro mult_le_mono1) simp
  also have "\<dots> \<le> n" by simp
  finally show ?thesis .
qed

lemma unat_chunk_index:
  assumes "i < w"
  shows "unat (chunk_index n w i) = unat i * (unat n div unat w)"
proof -
  have "unat i < unat w" using assms by (simp add: word_less_nat_alt)
  from nat_chunk_bound [OF this, of "unat n"]
  have "unat i * (unat n div unat w) \<le> unat n" by simp
  also have "unat n < 2 ^ LENGTH(64)" by (rule unsigned_less)
  finally have "unat i * unat (stride n w) < 2 ^ LENGTH(64)" by (simp add: unat_stride)
  then have "unat (i * stride n w) = unat i * unat (stride n w)"
    by (rule unat_mult_lem [THEN iffD1])
  then show ?thesis by (simp add: chunk_index_def unat_stride)
qed

lemma unat_chunk_end:
  assumes "i < w"
  shows "unat (chunk_index n w i + stride n w) = unat i * (unat n div unat w) + unat n div unat w"
proof -
  have "unat i < unat w" using assms by (simp add: word_less_nat_alt)
  from nat_chunk_bound [OF this, of "unat n"]
  have "unat i * (unat n div unat w) + unat n div unat w \<le> unat n" by simp
  also have "unat n < 2 ^ LENGTH(64)" by (rule unsigned_less)
  finally have "unat (chunk_index n w i) + unat (stride n w) < 2 ^ LENGTH(64)"
    by (simp add: unat_stride unat_chunk_index [OF assms])
  then have "unat (chunk_index n w i + stride n w) = unat (chunk_index n w i) + unat (stride n w)"
    by (rule unat_add_lem [THEN iffD1])
  then show ?thesis by (simp add: unat_stride unat_chunk_index [OF assms])
qed

text \<open>
  Every task of the loop, the last one too, is given exactly \<open>stride\<close> points: when
  \<open>index + stride < num_elements\<close> fails for \<open>i < w\<close>, the two sides are equal.
\<close>

lemma chunk_count_stride:
  assumes "i < w"
  shows "chunk_count n w i = stride n w"
proof (cases "chunk_index n w i + stride n w < n")
  case True
  then show ?thesis by (simp add: chunk_count_def Let_def)
next
  case False
  have "unat i < unat w" using assms by (simp add: word_less_nat_alt)
  from nat_chunk_bound [OF this, of "unat n"]
  have le: "unat (chunk_index n w i + stride n w) \<le> unat n"
    by (simp add: unat_chunk_end [OF assms])
  from False have "unat n \<le> unat (chunk_index n w i + stride n w)"
    by (simp add: word_less_nat_alt)
  with le have "unat (chunk_index n w i + stride n w) = unat n" by simp
  then have "chunk_index n w i + stride n w = n" by (simp add: word_unat_eq_iff)
  then have "n - chunk_index n w i = stride n w" by (metis add_diff_cancel_left')
  with False show ?thesis by (simp add: chunk_count_def Let_def)
qed

lemma out_region_eq:
  assumes "i < w"
  shows "out_region n w i =
         {unat i * (unat n div unat w) ..< unat i * (unat n div unat w) + unat n div unat w}"
  by (simp add: out_region_def chunk_count_stride [OF assms] unat_chunk_index [OF assms]
        unat_stride)

section \<open>The kernel loop and the tasks\<close>

lemma kernel_loop_length: "length (snd (kernel_loop f d q c k out)) = length out"
  by (induction c arbitrary: q k out) (auto split: sum.splits)

lemma kernel_loop_outside:
  "j < k \<or> k + c \<le> j \<Longrightarrow> snd (kernel_loop f d q c k out) ! j = out ! j"
proof (induction c arbitrary: q k out)
  case 0
  then show ?case by simp
next
  case (Suc c)
  show ?case
  proof (cases "f (take d q)")
    case (Inl e)
    then show ?thesis by simp
  next
    case (Inr v)
    from Suc.prems have a: "j < Suc k \<or> Suc k + c \<le> j" and b: "j \<noteq> k" by auto
    from Suc.IH [OF a] b Inr show ?thesis by simp
  qed
qed

lemma kernel_loop_throws:
  "0 < c \<Longrightarrow> f (take d q) = Inl e \<Longrightarrow> kernel_loop f d q c k out = (Some e, out)"
  by (cases c) simp_all

lemma kernel_loop_total:
  assumes "\<And>p. f p = Inr (g p)"
  shows "fst (kernel_loop f d q c k out) = None"
    and "k \<le> j \<Longrightarrow> j < k + c \<Longrightarrow> j < length out \<Longrightarrow>
         snd (kernel_loop f d q c k out) ! j = Some (g (take d (drop ((j - k) * d) q)))"
proof -
  show "fst (kernel_loop f d q c k out) = None"
    by (induction c arbitrary: q k out) (simp_all add: assms)
  show "k \<le> j \<Longrightarrow> j < k + c \<Longrightarrow> j < length out \<Longrightarrow>
         snd (kernel_loop f d q c k out) ! j = Some (g (take d (drop ((j - k) * d) q)))"
  proof (induction c arbitrary: q k out)
    case 0
    then show ?case by simp
  next
    case (Suc c)
    show ?case
    proof (cases "j = k")
      case True
      with Suc.prems show ?thesis
        by (simp add: assms kernel_loop_outside)
    next
      case False
      with Suc.prems have a: "Suc k \<le> j" "j < Suc k + c" "j < length (out[k := Some (g (take d q))])"
        by auto
      have "(j - Suc k) * d + d = (j - k) * d"
        using a(1) by (metis Suc_diff_le diff_Suc_Suc mult_Suc add.commute)
      with Suc.IH [OF a] show ?thesis by (simp add: assms add.commute)
    qed
  qed
qed

lemma join_tasks_None: "join_tasks tasks = None"
  unfolding join_tasks_def by (induction tasks) simp_all

lemma run_async_returns:
  "run_async f d qoff qs out n w =
     Inr (snd (fold (run_task f d qoff qs n w) (task_ids w) ([], out)))"
  by (simp add: run_async_def Let_def join_tasks_None)

lemma run_task_outside:
  "p \<notin> out_region n w i \<Longrightarrow> snd (run_task f d qoff qs n w i st) ! p = snd st ! p"
proof -
  assume "p \<notin> out_region n w i"
  then have "p < unat (chunk_index n w i) \<or>
             unat (chunk_index n w i) + unat (chunk_count n w i) \<le> p"
    by (auto simp: out_region_def)
  then show ?thesis
    by (simp add: run_task_def Let_def kernel_loop_outside)
qed

lemma run_task_length: "length (snd (run_task f d qoff qs n w i st)) = length (snd st)"
  by (simp add: run_task_def Let_def kernel_loop_length)

lemma fold_run_task_outside:
  "\<forall>i \<in> set is. p \<notin> out_region n w i \<Longrightarrow>
   snd (fold (run_task f d qoff qs n w) is st) ! p = snd st ! p"
  by (induction "is" arbitrary: st) (simp_all add: run_task_outside)

lemma task_ids_2: "task_ids 2 = [0, 1]"
  by (simp add: task_ids_def upt_rec)

section \<open>Worker count\<close>

lemma unat_desired_threads: "unat (desired_threads n) = spec_desired (unat n)"
  by (simp add: desired_threads_def spec_desired_def word_less_nat_alt)

lemma unat_num_threads:
  "unat (num_threads n m) = spec_effective_workers (unat n) (unat m)"
proof -
  have m: "unat (min (desired_threads n) m) = min (spec_desired (unat n)) (unat m)"
    by (simp add: min_def word_le_nat_alt unat_desired_threads)
  have z: "(min (desired_threads n) m = 0) = (min (spec_desired (unat n)) (unat m) = 0)"
    using m by (metis unat_eq_0)
  show ?thesis
  proof (cases "min (desired_threads n) m = 0")
    case True
    with z have "min (spec_desired (unat n)) (unat m) = 0" by blast
    with True show ?thesis
      unfolding num_threads_def Let_def spec_effective_workers_def by simp
  next
    case False
    with z have "min (spec_desired (unat n)) (unat m) \<noteq> 0" by blast
    with False m show ?thesis
      unfolding num_threads_def Let_def spec_effective_workers_def by simp
  qed
qed

text \<open>
  Claim C3. For every number of query points and every \<open>max_threads\<close> (8 when the
  caller leaves it out) the number of threads used is the minimum of the desired number
  and \<open>max_threads\<close>, replaced by 1 when that minimum is 0; the desired number is 1
  below 10000 points, 2 below 4000000, 4 below 160000000 and 8 from there on.
\<close>

theorem effective_workers_table:
  "unat (num_threads num_elements (max_threads_arg max_threads)) =
     spec_effective_workers (unat num_elements)
       (case max_threads of None \<Rightarrow> 8 | Some m \<Rightarrow> unat m)"
  by (cases max_threads) (simp_all add: unat_num_threads max_threads_arg_def)

section \<open>The chunks of the dispatch loop\<close>

text \<open>
  Claim C1, at 10001 query points with \<open>max_threads\<close> left out. The dispatch uses 2
  threads and a stride of 5000. The last task is given 5000 points, not the
  \<open>10001 - 5000 * (2 - 1) = 5001\<close> points of the claim, since \<open>5000 + 5000 < 10001\<close>
  holds; no task is given the query point 10000.
\<close>

theorem last_chunk_drops_remainder:
  "num_threads 10001 (max_threads_arg None) = 2 \<and>
   chunks 10001 2 = [(0, 5000), (5000, 5000)] \<and>
   (10001 :: size_t) - stride 10001 2 * (2 - 1) = 5001 \<and>
   10000 \<notin> out_region 10001 2 0 \<union> out_region 10001 2 1"
proof -
  have a: "num_threads 10001 (max_threads_arg None) = 2"
    by (simp add: num_threads_def desired_threads_def max_threads_arg_def)
  have b: "chunks 10001 2 = [(0, 5000), (5000, 5000)]"
    by (simp add: chunks_def task_ids_2 chunk_count_def chunk_index_def stride_def)
  have c: "(10001 :: size_t) - stride 10001 2 * (2 - 1) = 5001"
    by (simp add: stride_def)
  have d: "10000 \<notin> out_region 10001 2 0 \<union> out_region 10001 2 1"
    by (simp add: out_region_def chunk_count_def chunk_index_def stride_def)
  from a b c d show ?thesis by blast
qed

lemma out_region_before:
  assumes "i < j" "j < w"
  shows "out_region n w i \<inter> out_region n w j = {}"
proof -
  have iw: "i < w" using assms by simp
  have "Suc (unat i) \<le> unat j" using assms(1) by (simp add: word_less_nat_alt)
  then have "Suc (unat i) * (unat n div unat w) \<le> unat j * (unat n div unat w)"
    by (rule mult_le_mono1)
  then have "unat i * (unat n div unat w) + unat n div unat w \<le> unat j * (unat n div unat w)"
    by (simp add: add.commute)
  then show ?thesis
    unfolding out_region_eq [OF iw] out_region_eq [OF assms(2)] by auto
qed

lemma out_region_in_buffer:
  assumes "i < w"
  shows "out_region n w i \<subseteq> {..<unat n}"
proof -
  have "unat i < unat w" using assms by (simp add: word_less_nat_alt)
  from nat_chunk_bound [OF this, of "unat n"] show ?thesis
    unfolding out_region_eq [OF assms] by auto
qed

text \<open>
  Claim C7. Two distinct tasks of the dispatch loop are given parts of the output buffer
  that do not overlap; the part of a task lies inside the buffer, and a task leaves every
  entry outside its part as it was.
\<close>

theorem out_regions_disjoint:
  assumes "i < w" and "j < w" and "i \<noteq> j"
  shows "out_region n w i \<inter> out_region n w j = {} \<and>
         out_region n w i \<subseteq> {..<unat n} \<and>
         (\<forall>p. p \<notin> out_region n w i \<longrightarrow>
              snd (run_task f d qoff qs n w i st) ! p = snd st ! p)"
proof -
  have "i < j \<or> j < i" using assms(3) by auto
  then have "out_region n w i \<inter> out_region n w j = {}"
    using out_region_before [of i j w n] out_region_before [of j i w n] assms by auto
  then show ?thesis
    using out_region_in_buffer [OF assms(1)] run_task_outside by blast
qed

theorem out_regions_disjoint_witness:
  "(0 :: size_t) < num_threads 10001 8 \<and> (1 :: size_t) < num_threads 10001 8 \<and> (0 :: size_t) \<noteq> 1 \<and>
   out_region 10001 (num_threads 10001 8) 0 \<inter> out_region 10001 (num_threads 10001 8) 1 = {} \<and>
   out_region 10001 (num_threads 10001 8) 0 = {0..<5000} \<and>
   out_region 10001 (num_threads 10001 8) 1 = {5000..<10000} \<and>
   7000 \<notin> out_region 10001 (num_threads 10001 8) 0 \<and>
   snd (run_task (echo_kernel [size_slice unit_axis] (data unit_values)) 1 (\<lambda>index. index)
          (data (queries 10001)) 10001 (num_threads 10001 8) 0 ([], replicate 10001 None)) ! 7000 = None"
proof -
  have w: "num_threads 10001 8 = 2"
    by (simp add: num_threads_def desired_threads_def)
  have r0: "out_region 10001 2 0 = {0..<5000}"
    by (simp add: out_region_def chunk_count_def chunk_index_def stride_def)
  have r1: "out_region 10001 2 1 = {5000..<10000}"
    by (simp add: out_region_def chunk_count_def chunk_index_def stride_def)
  have h: "(0 :: size_t) < 2" "(1 :: size_t) < 2" "(0 :: size_t) \<noteq> 1" by simp_all
  have p: "7000 \<notin> out_region 10001 2 0" by (simp add: r0)
  from out_regions_disjoint [OF h, of 10001
      "echo_kernel [size_slice unit_axis] (data unit_values)" 1 "\<lambda>index. index"
      "data (queries 10001)" "([], replicate 10001 None)"] p
  have "out_region 10001 2 0 \<inter> out_region 10001 2 1 = {}"
    and "snd (run_task (echo_kernel [size_slice unit_axis] (data unit_values)) 1 (\<lambda>index. index)
          (data (queries 10001)) 10001 2 0 ([], replicate 10001 None)) ! 7000 = None"
    by simp_all
  with h p r0 r1 show ?thesis unfolding w by blast
qed

section \<open>The output of a call on a 1-D grid\<close>

lemma run_direct_total:
  assumes "\<And>p. f p = Inr (g p)"
  shows "run_direct f d qs out n = Inr (snd (kernel_loop f d qs (unat n) 0 out))"
proof -
  have "fst (kernel_loop f d qs (unat n) 0 out) = None"
    by (rule kernel_loop_total(1) [OF assms])
  then show ?thesis
    by (cases "kernel_loop f d qs (unat n) 0 out") (simp add: run_direct_def)
qed

lemma validate_sample: "validate [unit_axis] unit_values (queries n) = None"
  by (simp add: validate_def ndim_def unit_axis_def unit_values_def queries_def)

lemma one_thread_10001: "num_threads 10001 1 = 1"
  by (simp add: num_threads_def desired_threads_def)

lemma two_threads_10001: "num_threads 10001 2 = 2"
  by (simp add: num_threads_def desired_threads_def)

lemma sample_direct:
  "fst (interpolate echo_kernel echo_generic [unit_axis] unit_values (queries 10001) 1) =
     Inr \<lparr>shape = [10001],
          data = snd (kernel_loop (echo_kernel [size_slice unit_axis] (data unit_values)) 1
                   (data (queries 10001)) 10001 0 (replicate 10001 None))\<rparr>"
proof -
  have n: "shape (queries 10001) ! 0 = 10001" by (simp add: queries_def)
  have r: "run_direct (echo_kernel [size_slice unit_axis] (data unit_values)) 1
             (data (queries 10001)) (replicate 10001 None) 10001 =
           Inr (snd (kernel_loop (echo_kernel [size_slice unit_axis] (data unit_values)) 1
                   (data (queries 10001)) (unat (10001 :: size_t)) 0 (replicate 10001 None)))"
    by (rule run_direct_total [where g = hd]) (simp add: echo_kernel_def)
  show ?thesis using r
    by (simp add: interpolate_def validate_sample Let_def n one_thread_10001 fixed_branch_def)
qed

lemma sample_async:
  "fst (interpolate echo_kernel echo_generic [unit_axis] unit_values (queries 10001) 2) =
     Inr \<lparr>shape = [10001],
          data = snd (fold (run_task (echo_kernel [shape_slice unit_axis] (data unit_values)) 1
                   (\<lambda>index. index) (data (queries 10001)) 10001 2) [0, 1]
                   ([], replicate 10001 None))\<rparr>"
proof -
  have n: "shape (queries 10001) ! 0 = 10001" by (simp add: queries_def)
  show ?thesis
    by (simp add: interpolate_def validate_sample Let_def n two_threads_10001 fixed_branch_def
          run_async_returns task_ids_2)
qed

lemma direct_last:
  "snd (kernel_loop (echo_kernel [size_slice unit_axis] (data unit_values)) 1
          (data (queries 10001)) 10001 0 (replicate 10001 None)) ! 10000 = Some (1 / 2)"
proof -
  have "snd (kernel_loop (echo_kernel [size_slice unit_axis] (data unit_values)) 1
          (data (queries 10001)) 10001 0 (replicate 10001 None)) ! 10000 =
        Some (hd (take 1 (drop ((10000 - 0) * 1) (data (queries 10001)))))"
    by (rule kernel_loop_total(2) [where g = hd]) (simp_all add: echo_kernel_def)
  then show ?thesis by (simp add: queries_def)
qed

lemma async_last:
  "snd (fold (run_task f 1 (\<lambda>index. index) qs 10001 2) [0, 1] ([], replicate 10001 None)) ! 10000
     = None"
proof -
  have "\<forall>i \<in> set [0, 1 :: size_t]. 10000 \<notin> out_region 10001 2 i"
    by (simp add: out_region_def chunk_count_def chunk_index_def stride_def)
  from fold_run_task_outside [OF this, of f 1 "\<lambda>index. index" qs "([], replicate 10001 None)"]
  show ?thesis by simp
qed

text \<open>
  Claim C2, at 10001 query points on a 1-D grid. With \<open>max_threads = 1\<close> the entry
  10000 of the output is written (with the value of the query point 10000); with
  \<open>max_threads = 2\<close> the two tasks are given the points 0 to 9999 and the entry 10000
  is never written. The worker count changes which entries of the output are written.
\<close>

theorem worker_count_changes_output:
  "map_sum id (\<lambda>a. (shape a, data a ! 10000))
     (fst (interpolate echo_kernel echo_generic [unit_axis] unit_values (queries 10001) 1)) =
     Inr ([10001], Some (1 / 2)) \<and>
   map_sum id (\<lambda>a. (shape a, data a ! 10000))
     (fst (interpolate echo_kernel echo_generic [unit_axis] unit_values (queries 10001) 2)) =
     Inr ([10001], None)"
  unfolding sample_direct sample_async
  using direct_last
    async_last [of "echo_kernel [shape_slice unit_axis] (data unit_values)"
      "data (queries 10001)"]
  by simp


lemma fold_run_task_length:
  "length (snd (fold (run_task f d qoff qs n w) is st)) = length (snd st)"
  by (induction "is" arbitrary: st) (simp_all add: run_task_length)

lemma default_threads_10001: "num_threads 10001 (max_threads_arg None) = 2"
  by (simp add: num_threads_def desired_threads_def max_threads_arg_def)

text \<open>
  Claim C8, at 10001 query points on a 1-D grid with \<open>max_threads\<close> left out. The call
  returns an array of shape \<open>(10001,)\<close> over a buffer of 10001 entries, but its last
  entry holds no interpolated value: no kernel has written to it.
\<close>

theorem remainder_entry_never_written:
  "map_sum id (\<lambda>a. (shape a, length (data a), data a ! 10000))
     (fst (py_interpolate echo_kernel echo_generic [unit_axis] unit_values (queries 10001) None))
     = Inr ([10001], 10001, None)"
proof -
  have n: "shape (queries 10001) ! 0 = 10001" by (simp add: queries_def)
  have "fst (py_interpolate echo_kernel echo_generic [unit_axis] unit_values (queries 10001) None)
        = Inr \<lparr>shape = [10001],
          data = snd (fold (run_task (echo_kernel [shape_slice unit_axis] (data unit_values)) 1
                   (\<lambda>index. index) (data (queries 10001)) 10001 2) [0, 1]
                   ([], replicate 10001 None))\<rparr>"
    by (simp add: py_interpolate_def interpolate_def validate_sample Let_def n
          default_threads_10001 fixed_branch_def run_async_returns task_ids_2)
  then show ?thesis
    using async_last [of "echo_kernel [shape_slice unit_axis] (data unit_values)"
        "data (queries 10001)"]
      fold_run_task_length [of "echo_kernel [shape_slice unit_axis] (data unit_values)" 1
        "\<lambda>index. index" "data (queries 10001)" 10001 2 "[0, 1]" "([], replicate 10001 None)"]
    by simp
qed

section \<open>Exceptions of the tasks\<close>

lemma unit_axis_lens:
  "slice_size (shape_slice unit_axis) = 2" "slice_size (size_slice unit_axis) = 2"
  by (simp_all add: shape_slice_def size_slice_def array_size_def unit_axis_def)

lemma two_threads_10000: "num_threads 10000 2 = 2"
  by (simp add: num_threads_def desired_threads_def)

lemma one_thread_10000: "num_threads 10000 1 = 1"
  by (simp add: num_threads_def desired_threads_def)

lemma throwing_tasks:
  "fold (run_task (throwing_kernel axes vals) d qoff qs 10000 2) [0, 1] ([], out) =
     ([Some ''out_of_range'', Some ''out_of_range''], out)"
proof -
  have c: "chunk_count 10000 2 0 = 5000" "chunk_count 10000 2 1 = 5000"
    by (simp_all add: chunk_count_def chunk_index_def stride_def)
  have k: "kernel_loop (throwing_kernel axes vals) d q 5000 k b =
             (Some ''out_of_range'', b)" for q k b
    by (rule kernel_loop_throws) (simp_all add: throwing_kernel_def)
  show ?thesis by (simp add: run_task_def Let_def c k)
qed

text \<open>
  Claim C4, at 10000 query points on a 1-D grid with a kernel that throws. With
  \<open>max_threads = 2\<close> both tasks end with the exception, held by their futures; the
  call raises nothing and returns an array none of whose entries was written. With
  \<open>max_threads = 1\<close> the same exception leaves the call.
\<close>

theorem worker_exception_dropped:
  "fold (run_task (throwing_kernel [shape_slice unit_axis] (data unit_values)) 1 (\<lambda>index. index)
      (data (queries 10000)) 10000 2) (task_ids 2) ([], replicate 10000 None) =
     ([Some ''out_of_range'', Some ''out_of_range''], replicate 10000 None) \<and>
   interpolate throwing_kernel echo_generic [unit_axis] unit_values (queries 10000) 2 =
     (Inr \<lparr>shape = [10000], data = replicate 10000 None\<rparr>,
      [Alloc 10000, Kernel Async 1 [2] 0 0 5000, Kernel Async 1 [2] 5000 5000 5000]) \<and>
   interpolate throwing_kernel echo_generic [unit_axis] unit_values (queries 10000) 1 =
     (Inl (Raised ''out_of_range''), [Alloc 10000, Kernel Direct 1 [2] 0 0 10000])"
proof -
  have n: "shape (queries 10000) ! 0 = 10000" by (simp add: queries_def)
  have c: "chunk_count 10000 2 0 = 5000" "chunk_count 10000 2 1 = 5000"
    "chunk_index 10000 2 0 = 0" "chunk_index 10000 2 1 = 5000"
    by (simp_all add: chunk_count_def chunk_index_def stride_def)
  have k: "kernel_loop (throwing_kernel axes vals) d q 10000 k b =
             (Some ''out_of_range'', b)" for axes vals d q k b
    by (rule kernel_loop_throws) (simp_all add: throwing_kernel_def)
  have a: "fold (run_task (throwing_kernel [shape_slice unit_axis] (data unit_values)) 1
      (\<lambda>index. index) (data (queries 10000)) 10000 2) (task_ids 2) ([], replicate 10000 None) =
     ([Some ''out_of_range'', Some ''out_of_range''], replicate 10000 None)"
    unfolding task_ids_2 by (rule throwing_tasks)
  have b: "interpolate throwing_kernel echo_generic [unit_axis] unit_values (queries 10000) 2 =
     (Inr \<lparr>shape = [10000], data = replicate 10000 None\<rparr>,
      [Alloc 10000, Kernel Async 1 [2] 0 0 5000, Kernel Async 1 [2] 5000 5000 5000])"
    using a
    by (simp add: interpolate_def validate_sample Let_def n two_threads_10000 fixed_branch_def
          run_async_returns async_events_def task_ids_2 c unit_axis_lens)
  have d: "interpolate throwing_kernel echo_generic [unit_axis] unit_values (queries 10000) 1 =
     (Inl (Raised ''out_of_range''), [Alloc 10000, Kernel Direct 1 [2] 0 0 10000])"
    by (simp add: interpolate_def validate_sample Let_def n one_thread_10000 fixed_branch_def
          run_direct_def k unit_axis_lens)
  from a b d show ?thesis by blast
qed

section \<open>Rejected inputs\<close>

lemma show_nat_digit: "n < 10 \<Longrightarrow> show_nat n = [show_digit n]"
  by (simp add: show_nat.simps)

lemma check_points_None: "check_points points = None \<longleftrightarrow> list_all (\<lambda>axis. ndim axis = 1) points"
  by (induction points) simp_all

lemma check_points_Some: "check_points points = Some msg \<Longrightarrow> msg = points_msg"
  by (induction points) (simp_all split: if_splits)

lemma validate_None_iff:
  "validate points values interp_points = None \<longleftrightarrow> well_shaped points values interp_points"
proof (cases "check_points points")
  case None
  then show ?thesis
    using check_points_None [of points]
    by (auto simp: validate_def well_shaped_def Let_def)
next
  case (Some msg)
  then have "\<not> list_all (\<lambda>axis. ndim axis = 1) points"
    using check_points_None [of points] by simp
  with Some show ?thesis
    by (auto simp: validate_def well_shaped_def Let_def)
qed

lemma validate_Some:
  assumes "validate points values interp_points = Some msg"
  shows "msg \<in> {scalar_msg, points_msg, values_mismatch_msg (length points) (ndim values),
           interp_shape_msg, interp_mismatch_msg (length points) (shape interp_points ! 1)}"
proof (cases "check_points points")
  case None
  with assms show ?thesis
    by (auto simp: validate_def Let_def split: if_splits)
next
  case (Some m)
  with assms check_points_Some [OF Some] show ?thesis
    by (auto simp: validate_def Let_def split: if_splits)
qed

text \<open>
  Claim C6. When the number of axes differs from the rank of the sample tensor, or the
  query batch is not two-dimensional, or its number of columns differs from the number of
  axes, or an axis is not one-dimensional, or the sample tensor or the query batch is a
  scalar, the call raises a type error with one of the five messages of the source, and
  has no effect before: nothing is allocated and no kernel is called.
\<close>

theorem malformed_input_rejected:
  assumes "length points \<noteq> ndim values \<or> ndim interp_points \<noteq> 2 \<or>
           shape interp_points ! 1 \<noteq> length points \<or>
           (\<exists>axis \<in> set points. ndim axis \<noteq> 1) \<or>
           ndim values = 0 \<or> ndim interp_points = 0"
  shows "\<exists>msg. interpolate kern gkern points values interp_points max_threads =
                 (Inl (TypeError msg), []) \<and>
               msg \<in> {scalar_msg, points_msg, values_mismatch_msg (length points) (ndim values),
                 interp_shape_msg,
                 interp_mismatch_msg (length points) (shape interp_points ! 1)}"
proof -
  from assms have "\<not> well_shaped points values interp_points"
    by (auto simp: well_shaped_def list_all_iff)
  then obtain msg where m: "validate points values interp_points = Some msg"
    using validate_None_iff [of points "values" interp_points]
    by (cases "validate points values interp_points") auto
  from m have "interpolate kern gkern points values interp_points max_threads =
                 (Inl (TypeError msg), [])"
    by (simp add: interpolate_def)
  with validate_Some [OF m] show ?thesis by blast
qed

theorem malformed_input_rejected_witness:
  "length [unit_axis] \<noteq> ndim column_values \<and>
   interpolate echo_kernel echo_generic [unit_axis] column_values (queries 3) 8 =
     (Inl (TypeError ''Dimension mismatch! Grid is 1D but values are 2D!''), [])"
proof -
  have h: "length [unit_axis] \<noteq> ndim column_values"
    by (simp add: ndim_def column_values_def)
  then have "length [unit_axis] \<noteq> ndim column_values \<or> ndim (queries 3) \<noteq> 2 \<or>
           shape (queries 3) ! 1 \<noteq> length [unit_axis] \<or>
           (\<exists>axis \<in> set [unit_axis]. ndim axis \<noteq> 1) \<or>
           ndim column_values = 0 \<or> ndim (queries 3) = 0" by blast
  from malformed_input_rejected [OF this, of echo_kernel echo_generic 8]
  obtain msg where m: "interpolate echo_kernel echo_generic [unit_axis] column_values (queries 3) 8 =
                 (Inl (TypeError msg), [])" by blast
  have "validate [unit_axis] column_values (queries 3) =
          Some ''Dimension mismatch! Grid is 1D but values are 2D!''"
    by (simp add: validate_def ndim_def column_values_def unit_axis_def queries_def
          values_mismatch_msg_def show_nat_digit)
  then have "interpolate echo_kernel echo_generic [unit_axis] column_values (queries 3) 8 =
     (Inl (TypeError ''Dimension mismatch! Grid is 1D but values are 2D!''), [])"
    by (simp add: interpolate_def)
  with m h show ?thesis by simp
qed

text \<open>
  Claim C10. A call with an empty list of axes raises a type error and has no effect
  before: the message is the one for scalars when the sample tensor or the query batch is
  a scalar, and the mismatch between the 0 axes and the rank of the sample tensor
  otherwise.
\<close>

theorem empty_axes_rejected:
  "interpolate kern gkern [] values interp_points max_threads =
     (Inl (TypeError (if ndim values = 0 \<or> ndim interp_points = 0 then scalar_msg
                      else values_mismatch_msg 0 (ndim values))), [])"
  by (simp add: interpolate_def validate_def)


section \<open>The empty query batch\<close>

lemma num_threads_zero: "num_threads 0 m = 1"
proof (cases "m = 0")
  case True
  then show ?thesis by (simp add: num_threads_def desired_threads_def)
next
  case False
  then have "1 \<le> m" by (simp add: word_le_nat_alt unat_gt_0 Suc_le_eq)
  then have "min 1 m = 1" by (simp add: min_def)
  then show ?thesis by (simp add: num_threads_def desired_threads_def)
qed

lemma run_direct_zero: "run_direct f d qs out 0 = Inr out"
  by (simp add: run_direct_def)

lemma fixed_branch_zero:
  "fixed_branch kern d axes_direct axes_async qoff vals qs out 0 1 =
     (Inr out, [Kernel Direct d (map slice_size axes_direct) 0 0 0])"
  by (simp add: fixed_branch_def run_direct_zero)

lemma generic_branch_zero:
  "\<exists>g v q. generic_branch gkern points values interp_points out 0 = (Inr out, [Generic g v q 0])"
  by (simp add: generic_branch_def Let_def run_direct_zero)

text \<open>
  Claim C9. On a well-shaped input whose query batch has no rows the call allocates a
  buffer of length 0, calls one kernel in the calling thread with a count of 0, launches
  no task and returns the empty array of shape \<open>(0,)\<close>.
\<close>

theorem empty_batch_runs_directly:
  assumes "well_shaped points values interp_points" and "shape interp_points ! 0 = 0"
  shows "\<exists>ev. interpolate kern gkern points values interp_points max_threads =
                (Inr \<lparr>shape = [0], data = []\<rparr>, [Alloc 0, ev]) \<and>
              event_launch ev = Some Direct \<and> event_count ev = Some 0"
proof -
  from assms(1) have v: "validate points values interp_points = None"
    by (simp add: validate_None_iff)
  obtain g v q where
    g: "generic_branch gkern points values interp_points [] 0 = (Inr [], [Generic g v q 0])"
    using generic_branch_zero by blast
  consider "length points = 1" | "length points = 2" | "length points = 3"
    | "length points \<noteq> 1 \<and> length points \<noteq> 2 \<and> length points \<noteq> 3" by blast
  then show ?thesis
  proof cases
    case 1
    then show ?thesis
      by (simp add: interpolate_def v assms(2) Let_def num_threads_zero fixed_branch_zero)
  next
    case 2
    then show ?thesis
      by (simp add: interpolate_def v assms(2) Let_def num_threads_zero fixed_branch_zero)
  next
    case 3
    then show ?thesis
      by (simp add: interpolate_def v assms(2) Let_def num_threads_zero fixed_branch_zero)
  next
    case 4
    then show ?thesis
      by (simp add: interpolate_def v assms(2) Let_def num_threads_zero g)
  qed
qed

theorem empty_batch_runs_directly_witness:
  "well_shaped [unit_axis] unit_values (queries 0) \<and> shape (queries 0) ! 0 = 0 \<and>
   interpolate throwing_kernel echo_generic [unit_axis] unit_values (queries 0) 8 =
     (Inr \<lparr>shape = [0], data = []\<rparr>, [Alloc 0, Kernel Direct 1 [2] 0 0 0])"
proof -
  have a: "well_shaped [unit_axis] unit_values (queries 0)"
    by (simp add: well_shaped_def ndim_def unit_axis_def unit_values_def queries_def)
  have b: "shape (queries 0) ! 0 = 0" by (simp add: queries_def)
  from empty_batch_runs_directly [OF a b, of throwing_kernel echo_generic 8]
  obtain ev where e: "interpolate throwing_kernel echo_generic [unit_axis] unit_values (queries 0) 8 =
                (Inr \<lparr>shape = [0], data = []\<rparr>, [Alloc 0, ev])" by blast
  have "snd (interpolate throwing_kernel echo_generic [unit_axis] unit_values (queries 0) 8) =
          [Alloc 0, Kernel Direct 1 [2] 0 0 0]"
    by (simp add: interpolate_def validate_sample b Let_def num_threads_zero fixed_branch_zero
          unit_axis_lens)
  with e a b show ?thesis by simp
qed

section \<open>The slices of the generic kernel\<close>

lemma validate_grid4: "validate grid4 values4 query4 = None"
  by (simp add: validate_def grid4_def values4_def query4_def unit_axis_def ndim_def)

text \<open>
  Claim C5, at a 4-D grid of two coordinates per axis, a sample tensor of 16 entries and
  one query point of 4 coordinates. The generic kernel is called with a sample tensor
  slice of length 2 (the 16 entries divided by \<open>sizeof(double)\<close>) and a query slice of
  length 2 (computed from the sample tensor again), not of the lengths 16 and 4 of the
  claim; the axis slices and the output slice are as the claim says.
\<close>

theorem generic_slices_mismeasured:
  "array_size values4 = 16 \<and> array_size query4 = 4 \<and>
   interpolate echo_kernel echo_generic grid4 values4 query4 8 =
     (Inr \<lparr>shape = [1], data = [Some (1 / 2)]\<rparr>,
      [Alloc 1,
       Generic [shape_slice unit_axis, shape_slice unit_axis, shape_slice unit_axis,
                shape_slice unit_axis]
         \<lparr>slice_size = 2, slice_ptr = data values4\<rparr>
         \<lparr>slice_size = 2, slice_ptr = data query4\<rparr> 1])"
proof -
  have s: "array_size values4 = 16" "array_size query4 = 4"
    by (simp_all add: array_size_def values4_def query4_def)
  have n: "shape query4 ! 0 = 1" "length grid4 = 4" by (simp_all add: query4_def grid4_def)
  have d: "(of_nat (array_size values4) :: size_t) div sizeof_double = 2"
    by (simp add: s sizeof_double_def)
  have k: "run_direct (echo_generic g v q) 4 (data query4) [None] 1 = Inr [Some (1 / 2)]"
    for g v q
    by (simp add: run_direct_def echo_generic_def query4_def)
  have "interpolate echo_kernel echo_generic grid4 values4 query4 8 =
     (Inr \<lparr>shape = [1], data = [Some (1 / 2)]\<rparr>,
      [Alloc 1,
       Generic [shape_slice unit_axis, shape_slice unit_axis, shape_slice unit_axis,
                shape_slice unit_axis]
         \<lparr>slice_size = 2, slice_ptr = data values4\<rparr>
         \<lparr>slice_size = 2, slice_ptr = data query4\<rparr> 1])"
    by (simp add: interpolate_def validate_grid4 Let_def n generic_branch_def d k)
       (simp add: grid4_def)
  with s show ?thesis by blast
qed

end
